theory Spec2Isabelle
  imports Complex_Main "HOL-Library.Word"
begin

section \<open>The conversion layer of audio-converter\<close>

text \<open>
  A shallow embedding of the conversion functions of the Go program (the newest revision of
  the file, the one with the four routes \<^verbatim>\<open>/process-audio\<close>, \<^verbatim>\<open>/gif-to-mp4\<close>,
  \<^verbatim>\<open>/video-to-mp4\<close> and \<^verbatim>\<open>/convert-image-to-png\<close>).

  The program's effects are made explicit. The file system, the log of the external
  processes that were run, and the log of the temporary paths handed out by
  \<^verbatim>\<open>os.CreateTemp\<close> form a \<open>world\<close> that every function takes and returns. What the
  program cannot decide itself (which name \<^verbatim>\<open>os.CreateTemp\<close> picks, how many bytes a
  \<^verbatim>\<open>Write\<close> manages to store, what \<^verbatim>\<open>ffmpeg\<close> does) is a parameter: the \<open>env\<close>.
  Go's \<^verbatim>\<open>error\<close> values and its run-time panic are the values of the datatype
  \<open>conv_error\<close>.
\<close>

subsection \<open>Data\<close>

type_synonym byte = "8 word"

type_synonym filesystem = "string \<rightharpoonup> byte list"

text \<open>
  An \<^verbatim>\<open>exec.Cmd\<close> as the program configures it: the argument vector, and the bytes behind
  \<^verbatim>\<open>cmd.Stdin\<close> when the program sets that field (\<open>None\<close> when it leaves it unset).
\<close>

record command =
  args :: "string list"
  stdin :: "byte list option"

text \<open>
  What one run of the external process is observed to do: the error of \<^verbatim>\<open>cmd.Run()\<close>
  (\<open>None\<close> for a clean exit), the bytes it wrote on its standard output, the text it wrote on
  its standard error, and the file system it leaves behind.
\<close>

record process_outcome =
  exitError :: "string option"
  stdoutBytes :: "byte list"
  diagnosticText :: string
  filesAfter :: filesystem

record world =
  files :: filesystem
  runs :: "command list"
  temps :: "string list"

record env =
  tempName :: "string \<Rightarrow> world \<Rightarrow> string option"
  written :: "string \<Rightarrow> byte list \<Rightarrow> nat"
  ffmpeg :: "command \<Rightarrow> filesystem \<Rightarrow> process_outcome"

text \<open>
  One constructor for each \<^verbatim>\<open>errors.New\<close> and \<^verbatim>\<open>fmt.Errorf\<close> of the conversion functions,
  and one for the run-time panic of an index out of range (index, length).
  \<open>ConversionFailed\<close> carries the error of \<^verbatim>\<open>cmd.Run()\<close> and the captured standard error,
  the two values every conversion function formats into its message.
\<close>

datatype conv_error =
    ConversionFailed string string
  | DurationNotFound
  | DurationFormatNotFound
  | IndexOutOfRange nat nat
  | EmptyInput
  | CreateInputFailed
  | WriteFailed
  | CreateOutputFailed
  | StatInputFailed
  | StatOutputFailed
  | ReadOutputFailed
  | EmptyOutput

subsection \<open>Running the external process\<close>

text \<open>\<^verbatim>\<open>cmd.Run()\<close>: the process runs once, and the run is logged.\<close>

definition run :: "env \<Rightarrow> command \<Rightarrow> world \<Rightarrow> process_outcome \<times> world" where
  "run e c w =
     (let out = ffmpeg e c (files w)
      in (out, w\<lparr>files := filesAfter out, runs := runs w @ [c]\<rparr>))"

text \<open>The commands a call has run: the part of the log that is new.\<close>

definition newRuns :: "world \<Rightarrow> world \<Rightarrow> command list" where
  "newRuns w w' = drop (length (runs w)) (runs w')"

subsection \<open>The argument vector of an audio conversion\<close>

text \<open>The \<^verbatim>\<open>switch outputFormat\<close> of \<^verbatim>\<open>convertAudio\<close>.\<close>

definition audioArgs :: "string \<Rightarrow> string list" where
  "audioArgs outputFormat =
     (if outputFormat = ''mp3'' then
        [''ffmpeg'', ''-i'', ''pipe:0'', ''-f'', ''mp3'', ''pipe:1'']
      else if outputFormat = ''wav'' then
        [''ffmpeg'', ''-i'', ''pipe:0'', ''-f'', ''wav'', ''pipe:1'']
      else if outputFormat = ''aac'' then
        [''ffmpeg'', ''-i'', ''pipe:0'', ''-c:a'', ''aac'', ''-b:a'', ''128k'', ''-f'', ''adts'',
         ''pipe:1'']
      else if outputFormat = ''amr'' then
        [''ffmpeg'', ''-i'', ''pipe:0'', ''-c:a'', ''libopencore_amrnb'', ''-b:a'', ''12.2k'',
         ''-f'', ''amr'', ''pipe:1'']
      else if outputFormat = ''m4a'' then
        [''ffmpeg'', ''-i'', ''pipe:0'', ''-c:a'', ''aac'', ''-b:a'', ''128k'', ''-f'', ''ipod'',
         ''pipe:1'']
      else
        [''ffmpeg'', ''-i'', ''pipe:0'', ''-c:a'', ''libopus'', ''-b:a'', ''16k'', ''-vbr'', ''on'',
         ''-compression_level'', ''10'', ''-ac'', ''1'', ''-ar'', ''16000'', ''-f'', ''ogg'',
         ''pipe:1''])"

subsection \<open>Parsing the duration\<close>

text \<open>
  \<^verbatim>\<open>strings.Split(s, sep)\<close> for a separator that is not empty: the pieces of \<open>s\<close> between
  the occurrences of \<open>sep\<close>, found from the left and without overlap; one piece more than
  there are separators. (The program only splits at \<^verbatim>\<open>"time="\<close>; for the empty separator
  Go cuts after every character, which is what the first branch does on bytes.)
\<close>

function Split :: "string \<Rightarrow> string \<Rightarrow> string list" where
  "Split s sep =
     (if sep = [] then map (\<lambda>c. [c]) s
      else if s = [] then [[]]
      else if take (length sep) s = sep then [] # Split (drop (length sep) s) sep
      else (case Split (tl s) sep of
              [] \<Rightarrow> [[hd s]]
            | piece # pieces \<Rightarrow> (hd s # piece) # pieces))"
  by pat_completeness auto
termination
  by (relation "measure (\<lambda>(s, sep). length s)") (auto simp: neq_Nil_conv)

declare Split.simps [simp del]

text \<open>The number of occurrences of \<open>sep\<close> in \<open>s\<close>, one for each position where it starts.\<close>

fun occurrences :: "string \<Rightarrow> string \<Rightarrow> nat" where
  "occurrences sep [] = (if sep = [] then 1 else 0)"
| "occurrences sep (c # cs) =
     (if take (length sep) (c # cs) = sep then 1 else 0) + occurrences sep cs"

text \<open>
  The regular expression \<^verbatim>\<open>(\d+):(\d+):(\d+\.\d+)\<close>. In Go \<^verbatim>\<open>\d\<close> is an ASCII digit.
  Every \<^verbatim>\<open>\d+\<close> of it is followed by a character that is not a digit or by the end of
  the expression, so a match that starts at a given position takes each run of digits
  whole: \<open>matchAt\<close>. \<^verbatim>\<open>FindStringSubmatch\<close> returns the leftmost match: \<open>FindStringSubmatch\<close>.
  The result holds the three groups (\<^verbatim>\<open>matches[1]\<close>, \<^verbatim>\<open>matches[2]\<close>, \<^verbatim>\<open>matches[3]\<close>);
  \<open>None\<close> is Go's \<^verbatim>\<open>nil\<close>, the only result whose length is not 4.
\<close>

definition isDigit :: "char \<Rightarrow> bool" where
  "isDigit c = (c \<in> set ''0123456789'')"

definition expect :: "char \<Rightarrow> string \<Rightarrow> string option" where
  "expect c s = (case s of [] \<Rightarrow> None | d # rest \<Rightarrow> if d = c then Some rest else None)"

definition digitRun :: "string \<Rightarrow> (string \<times> string) option" where
  "digitRun s =
     (if takeWhile isDigit s = [] then None
      else Some (takeWhile isDigit s, dropWhile isDigit s))"

definition matchAt :: "string \<Rightarrow> (string \<times> string \<times> string) option" where
  "matchAt s =
     (case digitRun s of
        None \<Rightarrow> None
      | Some (g1, r1) \<Rightarrow>
     (case expect CHR '':'' r1 of
        None \<Rightarrow> None
      | Some r2 \<Rightarrow>
     (case digitRun r2 of
        None \<Rightarrow> None
      | Some (g2, r3) \<Rightarrow>
     (case expect CHR '':'' r3 of
        None \<Rightarrow> None
      | Some r4 \<Rightarrow>
     (case digitRun r4 of
        None \<Rightarrow> None
      | Some (g3, r5) \<Rightarrow>
     (case expect CHR ''.'' r5 of
        None \<Rightarrow> None
      | Some r6 \<Rightarrow>
     (case digitRun r6 of
        None \<Rightarrow> None
      | Some (g4, r7) \<Rightarrow> Some (g1, g2, g3 @ ''.'' @ g4))))))))"

fun FindStringSubmatch :: "string \<Rightarrow> (string \<times> string \<times> string) option" where
  "FindStringSubmatch [] = matchAt []"
| "FindStringSubmatch (c # cs) =
     (case matchAt (c # cs) of
        Some m \<Rightarrow> Some m
      | None \<Rightarrow> FindStringSubmatch cs)"

text \<open>
  \<^verbatim>\<open>strconv.ParseFloat\<close> on the groups, which are digit strings (with one point in the
  third group); its error is dropped by the program and cannot occur on such strings. The
  model computes with exact rationals where Go computes with \<^verbatim>\<open>float64\<close>: the two agree as
  long as the numbers are small enough to be exact in \<^verbatim>\<open>float64\<close> and the sum is not
  within rounding distance of the next integer, which is the case for the two-digit
  fractions that ffmpeg prints. \<^verbatim>\<open>int(x)\<close> truncates, which for these non-negative numbers
  is the floor.
\<close>

definition digitVal :: "char \<Rightarrow> nat" where
  "digitVal c = of_char c - of_char CHR ''0''"

definition decimal :: "string \<Rightarrow> nat" where
  "decimal ds = foldl (\<lambda>n c. 10 * n + digitVal c) 0 ds"

definition ParseFloat :: "string \<Rightarrow> rat" where
  "ParseFloat s =
     (let ip = takeWhile (\<lambda>c. c \<noteq> CHR ''.'') s;
          fp = drop 1 (dropWhile (\<lambda>c. c \<noteq> CHR ''.'') s)
      in of_nat (decimal ip) + of_nat (decimal fp) / 10 ^ length fp)"

text \<open>
  The duration-parsing step of \<^verbatim>\<open>convertAudio\<close>, from \<^verbatim>\<open>strings.Split\<close> to the
  computation of \<^verbatim>\<open>duration\<close>. The guard is \<^verbatim>\<open>len(splitTime) < 2\<close> and the index is
  \<^verbatim>\<open>splitTime[2]\<close>; Go panics when the index is out of range.
\<close>

definition parseDuration :: "string \<Rightarrow> conv_error + int" where
  "parseDuration outputText =
     (let splitTime = Split outputText ''time=''
      in if length splitTime < 2 then Inl DurationNotFound
         else if \<not> 2 < length splitTime then Inl (IndexOutOfRange 2 (length splitTime))
         else (case FindStringSubmatch (splitTime ! 2) of
                 None \<Rightarrow> Inl DurationFormatNotFound
               | Some (g1, g2, g3) \<Rightarrow>
                   (let hours = ParseFloat g1;
                        minutes = ParseFloat g2;
                        seconds = ParseFloat g3
                    in Inr \<lfloor>hours * 3600 + minutes * 60 + seconds\<rfloor>)))"

subsection \<open>convertAudio\<close>

definition convertAudio ::
  "env \<Rightarrow> byte list \<Rightarrow> string \<Rightarrow> string \<Rightarrow> world \<Rightarrow> (conv_error + byte list \<times> int) \<times> world" where
  "convertAudio e inputData inputFormat outputFormat w =
     (let cmd = \<lparr>args = audioArgs outputFormat, stdin = Some inputData\<rparr>;
          (out, w') = run e cmd w
      in case exitError out of
           Some err \<Rightarrow>
             (Inl (ConversionFailed err (diagnosticText out)), w')
         | None \<Rightarrow>
             (let convertedData = stdoutBytes out
              in case parseDuration (diagnosticText out) of
                   Inl err \<Rightarrow> (Inl err, w')
                 | Inr duration \<Rightarrow> (Inr (convertedData, duration), w')))"

subsection \<open>Temporary files\<close>

text \<open>
  \<^verbatim>\<open>os.CreateTemp("", pattern)\<close> creates an empty file under a name that is not in use, or
  fails. \<^verbatim>\<open>inputFile.Write\<close> reports an error exactly when it stored fewer bytes than it was
  given. \<^verbatim>\<open>os.Remove\<close> deletes the path. \<^verbatim>\<open>os.Stat\<close> and \<^verbatim>\<open>os.ReadFile\<close> fail on a path that
  does not exist.
\<close>

definition CreateTemp :: "env \<Rightarrow> string \<Rightarrow> world \<Rightarrow> string option \<times> world" where
  "CreateTemp e pattern w =
     (case tempName e pattern w of
        None \<Rightarrow> (None, w)
      | Some path \<Rightarrow>
          if files w path \<noteq> None then (None, w)
          else (Some path, w\<lparr>files := (files w)(path \<mapsto> []), temps := temps w @ [path]\<rparr>))"

definition Write :: "env \<Rightarrow> string \<Rightarrow> byte list \<Rightarrow> world \<Rightarrow> bool \<times> world" where
  "Write e path b w =
     (let n = min (written e path b) (length b)
      in (n = length b, w\<lparr>files := (files w)(path \<mapsto> take n b)\<rparr>))"

definition Remove :: "string \<Rightarrow> world \<Rightarrow> world" where
  "Remove path w = w\<lparr>files := (files w)(path := None)\<rparr>"

subsection \<open>The conversions that stage their data in temporary files\<close>

text \<open>
  \<^verbatim>\<open>convertGifToMp4UsingTempFiles\<close>, \<^verbatim>\<open>convertVideoToMp4UsingTempFiles\<close> and
  \<^verbatim>\<open>convertImageToPngUsingTempFiles\<close> are the same text three times, up to the two name
  patterns and the argument vector; the model has the text once, with these three as
  parameters. It is cut at the two \<^verbatim>\<open>defer\<close> statements: \<open>stagedRun\<close> is the code after
  the second \<^verbatim>\<open>defer\<close>, \<open>withOutputFile\<close> the code between the two, with the removal of
  the output file run on the way out, and \<open>convertUsingTempFiles\<close> the whole function, with
  the removal of the input file run last.
\<close>

definition stagedRun ::
  "env \<Rightarrow> (string \<Rightarrow> string \<Rightarrow> string list) \<Rightarrow> string \<Rightarrow> string \<Rightarrow> world \<Rightarrow>
   (conv_error + byte list) \<times> world" where
  "stagedRun e commandArgs inputPath outputPath w =
     (if files w inputPath = None then (Inl StatInputFailed, w)
      else
        (let cmd = \<lparr>args = commandArgs inputPath outputPath, stdin = None\<rparr>;
             (out, w') = run e cmd w
         in case exitError out of
              Some err \<Rightarrow> (Inl (ConversionFailed err (diagnosticText out)), w')
            | None \<Rightarrow>
                if files w' outputPath = None then (Inl StatOutputFailed, w')
                else (case files w' outputPath of
                        None \<Rightarrow> (Inl ReadOutputFailed, w')
                      | Some outputData \<Rightarrow>
                          if length outputData = 0 then (Inl EmptyOutput, w')
                          else (Inr outputData, w'))))"

definition withOutputFile ::
  "env \<Rightarrow> string \<Rightarrow> (string \<Rightarrow> string \<Rightarrow> string list) \<Rightarrow> byte list \<Rightarrow> string \<Rightarrow> world \<Rightarrow>
   (conv_error + byte list) \<times> world" where
  "withOutputFile e outputPattern commandArgs inputData inputPath w =
     (let (ok, w1) = Write e inputPath inputData w
      in if \<not> ok then (Inl WriteFailed, w1)
         else (case CreateTemp e outputPattern w1 of
                 (None, w2) \<Rightarrow> (Inl CreateOutputFailed, w2)
               | (Some outputPath, w2) \<Rightarrow>
                   (let (result, w3) = stagedRun e commandArgs inputPath outputPath w2
                    in (result, Remove outputPath w3))))"

definition convertUsingTempFiles ::
  "env \<Rightarrow> string \<Rightarrow> string \<Rightarrow> (string \<Rightarrow> string \<Rightarrow> string list) \<Rightarrow> byte list \<Rightarrow> world \<Rightarrow>
   (conv_error + byte list) \<times> world" where
  "convertUsingTempFiles e inputPattern outputPattern commandArgs inputData w =
     (case CreateTemp e inputPattern w of
        (None, w1) \<Rightarrow> (Inl CreateInputFailed, w1)
      | (Some inputPath, w1) \<Rightarrow>
          (let (result, w2) = withOutputFile e outputPattern commandArgs inputData inputPath w1
           in (result, Remove inputPath w2)))"

definition gifArgs :: "string \<Rightarrow> string \<Rightarrow> string list" where
  "gifArgs inputPath outputPath =
     [''ffmpeg'', ''-i'', inputPath, ''-movflags'', ''faststart'', ''-pix_fmt'', ''yuv420p'',
      ''-vf'', ''scale=trunc(iw/2)*2:trunc(ih/2)*2'', ''-f'', ''mp4'', ''-c:v'', ''libx264'',
      ''-preset'', ''ultrafast'', ''-crf'', ''23'', ''-y'', outputPath]"

definition videoArgs :: "string \<Rightarrow> string \<Rightarrow> string list" where
  "videoArgs inputPath outputPath =
     [''ffmpeg'', ''-i'', inputPath, ''-movflags'', ''faststart'', ''-pix_fmt'', ''yuv420p'',
      ''-c:v'', ''libx264'', ''-preset'', ''ultrafast'', ''-crf'', ''23'', ''-c:a'', ''aac'',
      ''-b:a'', ''128k'', ''-y'', outputPath]"

definition pngArgs :: "string \<Rightarrow> string \<Rightarrow> string list" where
  "pngArgs inputPath outputPath =
     [''ffmpeg'', ''-i'', inputPath, ''-f'', ''image2'', ''-c:v'', ''png'', ''-y'', outputPath]"

definition convertGifToMp4UsingTempFiles ::
  "env \<Rightarrow> byte list \<Rightarrow> world \<Rightarrow> (conv_error + byte list) \<times> world" where
  "convertGifToMp4UsingTempFiles e inputData w =
     convertUsingTempFiles e ''input-*.gif'' ''output-*.mp4'' gifArgs inputData w"

definition convertGifToMp4 ::
  "env \<Rightarrow> byte list \<Rightarrow> world \<Rightarrow> (conv_error + byte list) \<times> world" where
  "convertGifToMp4 e inputData w =
     (if length inputData = 0 then (Inl EmptyInput, w)
      else convertGifToMp4UsingTempFiles e inputData w)"

definition convertVideoToMp4UsingTempFiles ::
  "env \<Rightarrow> byte list \<Rightarrow> string \<Rightarrow> world \<Rightarrow> (conv_error + byte list) \<times> world" where
  "convertVideoToMp4UsingTempFiles e inputData inputFormat w =
     convertUsingTempFiles e (''input-*.'' @ inputFormat) ''output-*.mp4'' videoArgs inputData w"

definition convertVideoToMp4 ::
  "env \<Rightarrow> byte list \<Rightarrow> string \<Rightarrow> world \<Rightarrow> (conv_error + byte list) \<times> world" where
  "convertVideoToMp4 e inputData inputFormat w =
     convertVideoToMp4UsingTempFiles e inputData inputFormat w"

definition convertImageToPngUsingTempFiles ::
  "env \<Rightarrow> byte list \<Rightarrow> world \<Rightarrow> (conv_error + byte list) \<times> world" where
  "convertImageToPngUsingTempFiles e inputData w =
     convertUsingTempFiles e ''input-*'' ''output-*.png'' pngArgs inputData w"

definition convertImageToPng ::
  "env \<Rightarrow> byte list \<Rightarrow> world \<Rightarrow> (conv_error + byte list) \<times> world" where
  "convertImageToPng e inputData w = convertImageToPngUsingTempFiles e inputData w"

subsection \<open>The four routes\<close>

text \<open>
  \<^verbatim>\<open>main\<close> registers four routes, and the handler of each passes the payload to one
  conversion function: \<^verbatim>\<open>processAudio\<close> to \<^verbatim>\<open>convertAudio\<close> (with the two format
  fields of the form), \<^verbatim>\<open>processGifToMp4\<close> to \<^verbatim>\<open>convertGifToMp4\<close>,
  \<^verbatim>\<open>processVideoToMp4\<close> to \<^verbatim>\<open>convertVideoToMp4\<close> (with the input format) and
  \<^verbatim>\<open>processImageToPng\<close> to \<^verbatim>\<open>convertImageToPng\<close>. \<open>convert\<close> returns the converted
  bytes or the error of that function.
\<close>

datatype route =
    ProcessAudio string string
  | GifToMp4
  | VideoToMp4 string
  | ImageToPng

definition convert ::
  "env \<Rightarrow> route \<Rightarrow> byte list \<Rightarrow> world \<Rightarrow> (conv_error + byte list) \<times> world" where
  "convert e r inputData w =
     (case r of
        ProcessAudio inputFormat outputFormat \<Rightarrow>
          (case convertAudio e inputData inputFormat outputFormat w of
             (Inl err, w') \<Rightarrow> (Inl err, w')
           | (Inr (convertedData, duration), w') \<Rightarrow> (Inr convertedData, w'))
      | GifToMp4 \<Rightarrow> convertGifToMp4 e inputData w
      | VideoToMp4 inputFormat \<Rightarrow> convertVideoToMp4 e inputData inputFormat w
      | ImageToPng \<Rightarrow> convertImageToPng e inputData w)"

text \<open>
  The answer of \<^verbatim>\<open>processAudio\<close> once it has the payload: status 500 with the error of
  \<^verbatim>\<open>convertAudio\<close>, or status 200 with the duration, the audio (which the handler encodes
  in base64) and the format. The handler has no \<^verbatim>\<open>recover\<close>: a panic of \<^verbatim>\<open>convertAudio\<close>
  leaves it without an answer of its own (\<open>Panicked\<close>, with the index and the length).
\<close>

datatype audio_response =
    ErrorResponse nat conv_error
  | AudioResponse nat int "byte list" string
  | Panicked nat nat

definition processAudio ::
  "env \<Rightarrow> byte list \<Rightarrow> string \<Rightarrow> string \<Rightarrow> world \<Rightarrow> audio_response \<times> world" where
  "processAudio e inputData inputFormat outputFormat w =
     (case convertAudio e inputData inputFormat outputFormat w of
        (Inl err, w') \<Rightarrow>
          (case err of
             IndexOutOfRange i n \<Rightarrow> (Panicked i n, w')
           | _ \<Rightarrow> (ErrorResponse 500 err, w'))
      | (Inr (convertedData, duration), w') \<Rightarrow>
          (AudioResponse 200 duration convertedData outputFormat, w'))"

subsection \<open>The way a process is fed\<close>

text \<open>
  A command whose \<^verbatim>\<open>Stdin\<close> the program has set streams the payload through the standard
  streams of the process (the spec's Pipe mode); a command whose \<^verbatim>\<open>Stdin\<close> is unset gets
  its payload through the paths in its arguments (the spec's TempFile mode).
\<close>

datatype io_mode = Pipe | TempFile

definition ioModeOf :: "command \<Rightarrow> io_mode" where
  "ioModeOf c = (if stdin c = None then TempFile else Pipe)"

text \<open>
  The spec's seek-requiring set, in the spec's words: the targets whose container is of the
  MP4 family.
\<close>

definition spec_seekRequiring :: "route \<Rightarrow> bool" where
  "spec_seekRequiring r =
     (case r of
        ProcessAudio inputFormat outputFormat \<Rightarrow> False
      | GifToMp4 \<Rightarrow> True
      | VideoToMp4 inputFormat \<Rightarrow> True
      | ImageToPng \<Rightarrow> False)"

subsection \<open>A synthetic process\<close>

text \<open>
  A stand-in for ffmpeg that copies its input to its output unchanged, exits cleanly and
  prints a given text on its standard error. Fed through its standard input it answers on
  its standard output; otherwise it copies the file named after \<^verbatim>\<open>-i\<close> to the file named
  by its last argument. \<open>echoEnv\<close> adds a file system in which nothing fails and in which
  the \<^verbatim>\<open>*\<close> of a name pattern becomes \<^verbatim>\<open>0042\<close>.
\<close>

definition echo :: "string \<Rightarrow> command \<Rightarrow> filesystem \<Rightarrow> process_outcome" where
  "echo diagnostic c fs =
     (case stdin c of
        Some b \<Rightarrow>
          \<lparr>exitError = None, stdoutBytes = b, diagnosticText = diagnostic, filesAfter = fs\<rparr>
      | None \<Rightarrow>
          \<lparr>exitError = None, stdoutBytes = [], diagnosticText = diagnostic,
           filesAfter = fs(last (args c) := fs (args c ! 2))\<rparr>)"

definition echoEnv :: "string \<Rightarrow> env" where
  "echoEnv diagnostic =
     \<lparr>tempName =
        (\<lambda>pattern w. Some (''/tmp/'' @ concat (map (\<lambda>c. if c = CHR ''*'' then ''0042'' else [c]) pattern))),
      written = (\<lambda>path b. length b),
      ffmpeg = echo diagnostic\<rparr>"

definition emptyWorld :: world where
  "emptyWorld = \<lparr>files = Map.empty, runs = [], temps = []\<rparr>"

subsection \<open>Observations\<close>

text \<open>What the process that \<^verbatim>\<open>convertAudio\<close> starts is observed to do.\<close>

abbreviation audioOutcome :: "env \<Rightarrow> byte list \<Rightarrow> string \<Rightarrow> world \<Rightarrow> process_outcome" where
  "audioOutcome e inputData outputFormat w \<equiv>
     fst (run e \<lparr>args = audioArgs outputFormat, stdin = Some inputData\<rparr> w)"

text \<open>The temporary paths a call has created: the part of the log that is new.\<close>

definition newTemps :: "world \<Rightarrow> world \<Rightarrow> string list" where
  "newTemps w w' = drop (length (temps w)) (temps w')"

section \<open>Properties\<close>

lemma convertAudio_runs:
  "runs (snd (convertAudio e inputData inputFormat outputFormat w)) =
     runs w @ [\<lparr>args = audioArgs outputFormat, stdin = Some inputData\<rparr>]"
  by (simp add: convertAudio_def run_def Let_def split: option.split sum.split)

subsection \<open>Splitting at the marker\<close>

lemma Split_not_Nil: "sep \<noteq> [] \<Longrightarrow> Split s sep \<noteq> []"
  by (induction s sep rule: Split.induct) (subst Split.simps, auto split: list.splits)

lemma occurrences_after_marker:
  "occurrences ''time='' (''time='' @ rest) = Suc (occurrences ''time='' rest)"
  by simp

text \<open>The marker cannot overlap itself, so \<open>Split\<close> finds every occurrence of it.\<close>

lemma length_Split_time:
  "length (Split s ''time='') = Suc (occurrences ''time='' s)"
proof (induction s "''time=''" rule: Split.induct)
  case (1 s)
  show ?case
  proof (cases "s = []")
    case True
    then show ?thesis by (simp add: Split.simps)
  next
    case nonempty: False
    show ?thesis
    proof (cases "take (length ''time='') s = ''time=''")
      case True
      have s: "s = ''time='' @ drop (length ''time='') s"
        using append_take_drop_id [of "length ''time=''" s] by (simp only: True)
      have "length (Split s ''time='') = Suc (length (Split (drop (length ''time='') s) ''time=''))"
        using True nonempty by (subst Split.simps) simp
      also have "\<dots> = Suc (Suc (occurrences ''time='' (drop (length ''time='') s)))"
        using 1(1) True nonempty by (simp only: not_False_eq_True list.simps)
      also have "\<dots> = Suc (occurrences ''time='' s)"
        using occurrences_after_marker [of "drop (length ''time='') s"] s by (simp only:)
      finally show ?thesis .
    next
      case False
      obtain c cs where s: "s = c # cs" using nonempty by (cases s) auto
      have "length (Split s ''time='') = length (Split (tl s) ''time='')"
        using False nonempty Split_not_Nil [of "''time=''" "tl s"]
        by (subst Split.simps) (auto split: list.splits)
      also have "\<dots> = Suc (occurrences ''time='' (tl s))"
        using 1(2) False nonempty by simp
      also have "\<dots> = Suc (occurrences ''time='' s)"
        using False s by simp
      finally show ?thesis .
    qed
  qed
qed

text \<open>A text without the marker gets the first of the two duration errors.\<close>

lemma parseDuration_no_marker:
  "occurrences ''time='' outputText = 0 \<Longrightarrow> parseDuration outputText = Inl DurationNotFound"
  by (simp add: parseDuration_def length_Split_time)

subsection \<open>The whole seconds of a marker\<close>

text \<open>
  Where the index is in range and the expression matches, the duration step returns
  \<open>hours * 3600 + minutes * 60\<close> plus the whole part of the seconds, for the match it reads.
\<close>

lemma digitVal_le_9: "isDigit c \<Longrightarrow> digitVal c \<le> 9"
  by (auto simp: isDigit_def digitVal_def)

lemma point_not_digit: "\<not> isDigit CHR ''.''"
  by (simp add: isDigit_def)

lemma foldl_decimal_bound:
  "\<forall>c \<in> set ds. isDigit c \<Longrightarrow>
   Suc (foldl (\<lambda>n c. 10 * n + digitVal c) n ds) \<le> Suc n * 10 ^ length ds"
proof (induction ds arbitrary: n)
  case Nil
  then show ?case by simp
next
  case (Cons d ds)
  have "Suc (foldl (\<lambda>n c. 10 * n + digitVal c) (10 * n + digitVal d) ds)
          \<le> Suc (10 * n + digitVal d) * 10 ^ length ds"
    using Cons by simp
  also have "\<dots> \<le> (10 * Suc n) * 10 ^ length ds"
    using digitVal_le_9 [of d] Cons.prems by (intro mult_le_mono1) simp
  finally show ?case by (simp add: algebra_simps)
qed

lemma decimal_bound: "\<forall>c \<in> set ds. isDigit c \<Longrightarrow> decimal ds < 10 ^ length ds"
  using foldl_decimal_bound [of ds 0] by (simp add: decimal_def)

lemma cut_at_point:
  "\<forall>c \<in> set ip. isDigit c \<Longrightarrow>
   takeWhile (\<lambda>c. c \<noteq> CHR ''.'') (ip @ ''.'' @ fp) = ip \<and>
   dropWhile (\<lambda>c. c \<noteq> CHR ''.'') (ip @ ''.'' @ fp) = ''.'' @ fp"
  by (induction ip) (auto simp: point_not_digit)

lemma cut_without_point:
  assumes "\<forall>c \<in> set ds. isDigit c"
  shows "takeWhile (\<lambda>c. c \<noteq> CHR ''.'') ds = ds \<and> dropWhile (\<lambda>c. c \<noteq> CHR ''.'') ds = []"
proof -
  have "\<forall>c \<in> set ds. c \<noteq> CHR ''.''"
    using assms point_not_digit by blast
  then show ?thesis by simp
qed

lemma ParseFloat_digits:
  assumes "\<forall>c \<in> set ds. isDigit c"
  shows "ParseFloat ds = of_nat (decimal ds)"
proof -
  from cut_without_point [OF assms]
  have tw: "takeWhile (\<lambda>c. c \<noteq> CHR ''.'') ds = ds"
    and dw: "dropWhile (\<lambda>c. c \<noteq> CHR ''.'') ds = []"
    by blast+
  show ?thesis unfolding ParseFloat_def Let_def tw dw by (simp add: decimal_def)
qed

lemma ParseFloat_point:
  assumes "\<forall>c \<in> set ip. isDigit c"
  shows "ParseFloat (ip @ ''.'' @ fp) = of_nat (decimal ip) + of_nat (decimal fp) / 10 ^ length fp"
proof -
  from cut_at_point [OF assms, of fp]
  have tw: "takeWhile (\<lambda>c. c \<noteq> CHR ''.'') (ip @ ''.'' @ fp) = ip"
    and dw: "dropWhile (\<lambda>c. c \<noteq> CHR ''.'') (ip @ ''.'' @ fp) = ''.'' @ fp"
    by blast+
  show ?thesis unfolding ParseFloat_def Let_def tw dw by simp
qed

lemma digitRun_Some:
  "digitRun s = Some (g, r) \<Longrightarrow> (\<forall>c \<in> set g. isDigit c) \<and> g \<noteq> []"
  by (auto simp: digitRun_def split: if_splits dest: set_takeWhileD)

lemma matchAt_SomeD:
  assumes "matchAt s = Some m"
  shows "\<exists>g1 r1 r2 g2 r3 r4 g3 r5 r6 g4 r7.
           digitRun s = Some (g1, r1) \<and> expect CHR '':'' r1 = Some r2 \<and>
           digitRun r2 = Some (g2, r3) \<and> expect CHR '':'' r3 = Some r4 \<and>
           digitRun r4 = Some (g3, r5) \<and> expect CHR ''.'' r5 = Some r6 \<and>
           digitRun r6 = Some (g4, r7) \<and> m = (g1, g2, g3 @ ''.'' @ g4)"
  using assms
  by (simp add: matchAt_def split: option.split_asm prod.split_asm)

lemma matchAt_Some:
  assumes "matchAt s = Some (g1, g2, g3)"
  shows "(\<forall>c \<in> set g1. isDigit c) \<and> (\<forall>c \<in> set g2. isDigit c) \<and>
         (\<exists>ip fp. g3 = ip @ ''.'' @ fp \<and> (\<forall>c \<in> set ip. isDigit c) \<and> (\<forall>c \<in> set fp. isDigit c))"
proof -
  from matchAt_SomeD [OF assms] obtain r1 r2 r3 r4 ip r5 r6 fp r7 where
    d: "digitRun s = Some (g1, r1)" "digitRun r2 = Some (g2, r3)"
       "digitRun r4 = Some (ip, r5)" "digitRun r6 = Some (fp, r7)"
    and g3: "g3 = ip @ ''.'' @ fp"
    by blast
  from d [THEN digitRun_Some] g3 show ?thesis by blast
qed

lemma FindStringSubmatch_Some:
  "FindStringSubmatch s = Some (g1, g2, g3) \<Longrightarrow>
   (\<forall>c \<in> set g1. isDigit c) \<and> (\<forall>c \<in> set g2. isDigit c) \<and>
   (\<exists>ip fp. g3 = ip @ ''.'' @ fp \<and> (\<forall>c \<in> set ip. isDigit c) \<and> (\<forall>c \<in> set fp. isDigit c))"
proof (induction s)
  case Nil
  then show ?case using matchAt_Some by simp
next
  case (Cons c cs)
  show ?case
  proof (cases "matchAt (c # cs)")
    case None
    then show ?thesis using Cons by simp
  next
    case (Some m)
    then have "matchAt (c # cs) = Some (g1, g2, g3)" using Cons.prems by simp
    then show ?thesis by (rule matchAt_Some)
  qed
qed

lemma floor_whole_seconds:
  fixes h m ip fp k :: nat
  assumes "fp < 10 ^ k"
  shows "\<lfloor>(of_nat h :: rat) * 3600 + of_nat m * 60 + (of_nat ip + of_nat fp / 10 ^ k)\<rfloor> =
         int (h * 3600 + m * 60 + ip)"
proof -
  have "(of_nat fp :: rat) < of_nat (10 ^ k)" using assms by (simp only: of_nat_less_iff)
  then have frac: "0 \<le> (of_nat fp :: rat) / 10 ^ k" "(of_nat fp :: rat) / 10 ^ k < 1"
    by simp_all
  have "(of_nat h :: rat) * 3600 + of_nat m * 60 + (of_nat ip + of_nat fp / 10 ^ k) =
          of_int (int (h * 3600 + m * 60 + ip)) + of_nat fp / 10 ^ k"
    by simp
  moreover have "\<lfloor>of_int (int (h * 3600 + m * 60 + ip)) + (of_nat fp :: rat) / 10 ^ k\<rfloor> =
                   int (h * 3600 + m * 60 + ip)"
    using frac by (intro floor_unique) simp_all
  ultimately show ?thesis by (simp only:)
qed

lemma parseDuration_formula:
  assumes "2 < length (Split outputText ''time='')"
    and "FindStringSubmatch (Split outputText ''time='' ! 2) = Some (g1, g2, ip @ ''.'' @ fp)"
    and "\<forall>c \<in> set ip. isDigit c"
  shows "parseDuration outputText = Inr (int (decimal g1 * 3600 + decimal g2 * 60 + decimal ip))"
proof -
  from FindStringSubmatch_Some [OF assms(2)] obtain ip' fp' where
    g: "\<forall>c \<in> set g1. isDigit c" "\<forall>c \<in> set g2. isDigit c"
    and e: "ip @ ''.'' @ fp = ip' @ ''.'' @ fp'"
    and d: "\<forall>c \<in> set ip'. isDigit c" "\<forall>c \<in> set fp'. isDigit c"
    by blast
  have a: "takeWhile (\<lambda>c. c \<noteq> CHR ''.'') (ip @ ''.'' @ fp) = ip"
    using cut_at_point [OF assms(3), of fp] by blast
  have b: "takeWhile (\<lambda>c. c \<noteq> CHR ''.'') (ip' @ ''.'' @ fp') = ip'"
    using cut_at_point [OF d(1), of fp'] by blast
  have "ip = takeWhile (\<lambda>c. c \<noteq> CHR ''.'') (ip @ ''.'' @ fp)" by (simp only: a)
  also have "\<dots> = takeWhile (\<lambda>c. c \<noteq> CHR ''.'') (ip' @ ''.'' @ fp')" by (simp only: e)
  also have "\<dots> = ip'" by (simp only: b)
  finally have "ip = ip'" .
  then have "fp = fp'" using e by simp
  then have fp: "\<forall>c \<in> set fp. isDigit c" using d(2) by simp
  have "\<lfloor>ParseFloat g1 * 3600 + ParseFloat g2 * 60 + ParseFloat (ip @ ''.'' @ fp)\<rfloor> =
          int (decimal g1 * 3600 + decimal g2 * 60 + decimal ip)"
    unfolding ParseFloat_digits [OF g(1)] ParseFloat_digits [OF g(2)] ParseFloat_point [OF assms(3)]
    by (rule floor_whole_seconds) (rule decimal_bound [OF fp])
  then show ?thesis
    unfolding parseDuration_def Let_def using assms(1,2) by (simp only: split: if_splits) simp
qed

lemma convertAudio_result:
  "fst (convertAudio e inputData inputFormat outputFormat w) =
     (case exitError (audioOutcome e inputData outputFormat w) of
        Some err \<Rightarrow>
          Inl (ConversionFailed err (diagnosticText (audioOutcome e inputData outputFormat w)))
      | None \<Rightarrow>
          (case parseDuration (diagnosticText (audioOutcome e inputData outputFormat w)) of
             Inl err \<Rightarrow> Inl err
           | Inr duration \<Rightarrow>
               Inr (stdoutBytes (audioOutcome e inputData outputFormat w), duration)))"
  by (simp add: convertAudio_def run_def Let_def split: option.split sum.split)

subsection \<open>The audio argument vector\<close>

text \<open>
  C9. An output format tag that is none of mp3, wav, aac, amr and m4a does not make
  \<^verbatim>\<open>convertAudio\<close> fail: the one process it runs is ffmpeg with the default profile (Opus at
  16 kbit/s, one channel, 16 kHz, in an Ogg container), fed through its standard input.
\<close>

theorem audio_unrecognized_tag_uses_default_profile:
  assumes "outputFormat \<notin> {''mp3'', ''wav'', ''aac'', ''amr'', ''m4a''}"
  shows "newRuns w (snd (convertAudio e inputData inputFormat outputFormat w)) =
           [\<lparr>args = [''ffmpeg'', ''-i'', ''pipe:0'', ''-c:a'', ''libopus'', ''-b:a'', ''16k'',
                     ''-vbr'', ''on'', ''-compression_level'', ''10'', ''-ac'', ''1'',
                     ''-ar'', ''16000'', ''-f'', ''ogg'', ''pipe:1''],
             stdin = Some inputData\<rparr>]"
proof -
  have "audioArgs outputFormat =
          [''ffmpeg'', ''-i'', ''pipe:0'', ''-c:a'', ''libopus'', ''-b:a'', ''16k'',
           ''-vbr'', ''on'', ''-compression_level'', ''10'', ''-ac'', ''1'',
           ''-ar'', ''16000'', ''-f'', ''ogg'', ''pipe:1'']"
    using assms unfolding audioArgs_def by simp
  then show ?thesis
    by (simp add: newRuns_def convertAudio_runs)
qed

theorem audio_unrecognized_tag_uses_default_profile_witness:
  "''flac'' \<notin> {''mp3'', ''wav'', ''aac'', ''amr'', ''m4a''} \<and>
   newRuns emptyWorld (snd (convertAudio (echoEnv '''') [1, 2] ''flac'' ''flac'' emptyWorld)) =
     [\<lparr>args = [''ffmpeg'', ''-i'', ''pipe:0'', ''-c:a'', ''libopus'', ''-b:a'', ''16k'',
               ''-vbr'', ''on'', ''-compression_level'', ''10'', ''-ac'', ''1'',
               ''-ar'', ''16000'', ''-f'', ''ogg'', ''pipe:1''],
       stdin = Some [1, 2]\<rparr>]"
proof -
  have h: "''flac'' \<notin> {''mp3'', ''wav'', ''aac'', ''amr'', ''m4a''}" by simp
  show ?thesis
    using h audio_unrecognized_tag_uses_default_profile
      [OF h, of emptyWorld "echoEnv ''''" "[1, 2]" "''flac''"]
    by simp
qed

text \<open>
  C10. Two calls of \<^verbatim>\<open>convertAudio\<close> with the same output format tag run ffmpeg with the
  same argument vector, whatever the input format tags, the payloads, the environments and
  the worlds they start from are: the vector is \<open>audioArgs\<close> of the output tag.
\<close>

theorem audio_args_determined_by_output_tag:
  "map args (newRuns w1 (snd (convertAudio e1 inputData1 inputFormat1 outputFormat w1))) =
     map args (newRuns w2 (snd (convertAudio e2 inputData2 inputFormat2 outputFormat w2))) \<and>
   map args (newRuns w1 (snd (convertAudio e1 inputData1 inputFormat1 outputFormat w1))) =
     [audioArgs outputFormat]"
  by (simp add: newRuns_def convertAudio_runs)

subsection \<open>Empty payloads and empty results\<close>

text \<open>
  C2, at the failing input. Only \<^verbatim>\<open>convertGifToMp4\<close> rejects an empty payload before it
  does anything. \<^verbatim>\<open>convertAudio\<close> starts ffmpeg on the empty payload in every
  environment, and so do \<^verbatim>\<open>convertVideoToMp4\<close> and \<^verbatim>\<open>convertImageToPng\<close> where the
  temporary files can be created.
\<close>

theorem empty_input_still_runs_process:
  "newRuns w (snd (convertAudio e [] inputFormat outputFormat w)) =
     [\<lparr>args = audioArgs outputFormat, stdin = Some []\<rparr>] \<and>
   length (newRuns emptyWorld (snd (convertVideoToMp4 (echoEnv '''') [] ''avi'' emptyWorld))) = 1 \<and>
   length (newRuns emptyWorld (snd (convertImageToPng (echoEnv '''') [] emptyWorld))) = 1 \<and>
   convertGifToMp4 e [] w = (Inl EmptyInput, w)"
proof -
  have a: "newRuns w (snd (convertAudio e [] inputFormat outputFormat w)) =
     [\<lparr>args = audioArgs outputFormat, stdin = Some []\<rparr>]"
    by (simp add: newRuns_def convertAudio_runs)
  have v: "length (newRuns emptyWorld
             (snd (convertVideoToMp4 (echoEnv '''') [] ''avi'' emptyWorld))) = 1"
    by code_simp
  have i: "length (newRuns emptyWorld
             (snd (convertImageToPng (echoEnv '''') [] emptyWorld))) = 1"
    by code_simp
  have g: "convertGifToMp4 e [] w = (Inl EmptyInput, w)"
    by (simp add: convertGifToMp4_def)
  from a v i g show ?thesis by (simp only: simp_thms)
qed

text \<open>
  C5, at the failing input. The three conversions through temporary files turn an empty
  output file into an error; \<^verbatim>\<open>convertAudio\<close> has no such check. When the process exits
  cleanly, writes nothing on its standard output and prints two progress markers,
  \<^verbatim>\<open>convertAudio\<close> returns the empty byte sequence without an error, and \<^verbatim>\<open>processAudio\<close>
  answers with status 200.
\<close>

theorem audio_success_with_empty_output:
  "fst (convertAudio (echoEnv ''time=00:00:00.00 time=00:00:00.00'') [] ''ogg'' ''mp3''
          emptyWorld) = Inr ([], 0) \<and>
   fst (processAudio (echoEnv ''time=00:00:00.00 time=00:00:00.00'') [] ''ogg'' ''mp3''
          emptyWorld) = AudioResponse 200 0 [] ''mp3''"
  by code_simp

subsection \<open>The duration\<close>

text \<open>
  C3, at the failing input. On a diagnostic text with the single marker
  \<^verbatim>\<open>time=01:02:03.50\<close> the duration step does not yield 3723: it reads index 2 of a slice
  of length 2. On a text with three markers it reads the second one, not the last. What
  the claim says of a text without marker, and of the whole seconds of the marker that is
  read, does hold (\<open>parseDuration_no_marker\<close>, \<open>parseDuration_formula\<close>).
\<close>

theorem spec_example_marker_panics:
  "parseDuration ''frame=1 time=01:02:03.50 bitrate=64k'' = Inl (IndexOutOfRange 2 2) \<and>
   parseDuration ''time=00:00:01.00 time=00:00:02.00 time=01:02:03.50'' = Inr 2"
  by code_simp

text \<open>
  C6. When the marker \<^verbatim>\<open>time=\<close> occurs exactly once in the diagnostic text, the split has
  two elements, the guard \<^verbatim>\<open>len(splitTime) < 2\<close> lets it pass, and the duration step reads
  index 2 of a slice of length 2: the result is the out-of-range panic, neither a duration
  nor one of the two duration errors.
\<close>

theorem single_marker_reads_out_of_range:
  assumes "occurrences ''time='' outputText = 1"
  shows "length (Split outputText ''time='') = 2 \<and>
         parseDuration outputText = Inl (IndexOutOfRange 2 2)"
proof -
  have len: "length (Split outputText ''time='') = 2"
    using assms by (simp add: length_Split_time)
  then show ?thesis
    by (simp add: parseDuration_def)
qed

theorem single_marker_reads_out_of_range_witness:
  "occurrences ''time='' ''size=64kB time=00:00:05.00 bitrate=16k'' = 1 \<and>
   length (Split ''size=64kB time=00:00:05.00 bitrate=16k'' ''time='') = 2 \<and>
   parseDuration ''size=64kB time=00:00:05.00 bitrate=16k'' = Inl (IndexOutOfRange 2 2)"
proof -
  have h: "occurrences ''time='' ''size=64kB time=00:00:05.00 bitrate=16k'' = 1"
    by simp
  show ?thesis
    using h single_marker_reads_out_of_range [OF h] by simp
qed

text \<open>
  The same at the level of the conversion and of the handler: after a clean exit of the
  process, a single marker makes \<^verbatim>\<open>convertAudio\<close> panic, and \<^verbatim>\<open>processAudio\<close> with it.
\<close>

lemma convertAudio_single_marker:
  assumes "exitError (audioOutcome e inputData outputFormat w) = None"
    and "occurrences ''time='' (diagnosticText (audioOutcome e inputData outputFormat w)) = 1"
  shows "fst (convertAudio e inputData inputFormat outputFormat w) = Inl (IndexOutOfRange 2 2)"
    and "fst (processAudio e inputData inputFormat outputFormat w) = Panicked 2 2"
proof -
  have "length (Split (diagnosticText (audioOutcome e inputData outputFormat w)) ''time='') = 2"
    using assms(2) by (simp add: length_Split_time)
  then have "parseDuration (diagnosticText (audioOutcome e inputData outputFormat w)) =
               Inl (IndexOutOfRange 2 2)"
    by (simp add: parseDuration_def)
  then show c: "fst (convertAudio e inputData inputFormat outputFormat w) =
                  Inl (IndexOutOfRange 2 2)"
    using assms(1) by (simp add: convertAudio_result)
  then show "fst (processAudio e inputData inputFormat outputFormat w) = Panicked 2 2"
    by (auto simp: processAudio_def split: prod.split sum.split)
qed

text \<open>
  C4, as the claim states it, fails: the process exits cleanly and has produced three bytes,
  its diagnostic text has no marker, and the caller gets the duration error and no bytes.
\<close>

theorem duration_failure_is_not_recovered:
  "exitError (audioOutcome (echoEnv ''no progress line'') [1, 2, 3] ''mp3'' emptyWorld) = None \<and>
   stdoutBytes (audioOutcome (echoEnv ''no progress line'') [1, 2, 3] ''mp3'' emptyWorld) = [1, 2, 3] \<and>
   parseDuration ''no progress line'' = Inl DurationNotFound \<and>
   fst (convertAudio (echoEnv ''no progress line'') [1, 2, 3] ''ogg'' ''mp3'' emptyWorld) =
     Inl DurationNotFound \<and>
   fst (processAudio (echoEnv ''no progress line'') [1, 2, 3] ''ogg'' ''mp3'' emptyWorld) =
     ErrorResponse 500 DurationNotFound"
  by code_simp

text \<open>
  C4, amended. After a clean exit of the process, a failure of the duration step with one of
  its two errors (no marker; no \<^verbatim>\<open>HH:MM:SS.ms\<close> in the text after the second marker) aborts
  the conversion: \<^verbatim>\<open>convertAudio\<close> returns that error and no bytes, and \<^verbatim>\<open>processAudio\<close>
  answers with status 500 and that error.
\<close>

theorem duration_failure_aborts_audio_conversion:
  assumes "exitError (audioOutcome e inputData outputFormat w) = None"
    and "parseDuration (diagnosticText (audioOutcome e inputData outputFormat w)) = Inl err"
    and "err = DurationNotFound \<or> err = DurationFormatNotFound"
  shows "fst (convertAudio e inputData inputFormat outputFormat w) = Inl err \<and>
         fst (processAudio e inputData inputFormat outputFormat w) = ErrorResponse 500 err"
proof -
  have c: "fst (convertAudio e inputData inputFormat outputFormat w) = Inl err"
    using assms(1,2) by (simp add: convertAudio_result)
  then have "fst (processAudio e inputData inputFormat outputFormat w) = ErrorResponse 500 err"
    using assms(3) by (auto simp: processAudio_def split: prod.split sum.split)
  with c show ?thesis by simp
qed

theorem duration_failure_aborts_audio_conversion_witness:
  "exitError (audioOutcome (echoEnv ''time=1 time=2 time=3'') [9] ''wav'' emptyWorld) = None \<and>
   parseDuration (diagnosticText (audioOutcome (echoEnv ''time=1 time=2 time=3'') [9] ''wav'' emptyWorld)) =
     Inl DurationFormatNotFound \<and>
   fst (convertAudio (echoEnv ''time=1 time=2 time=3'') [9] ''ogg'' ''wav'' emptyWorld) =
     Inl DurationFormatNotFound \<and>
   fst (processAudio (echoEnv ''time=1 time=2 time=3'') [9] ''ogg'' ''wav'' emptyWorld) =
     ErrorResponse 500 DurationFormatNotFound"
proof -
  have h1: "exitError (audioOutcome (echoEnv ''time=1 time=2 time=3'') [9] ''wav'' emptyWorld) = None"
    by code_simp
  have h2: "parseDuration (diagnosticText (audioOutcome (echoEnv ''time=1 time=2 time=3'') [9] ''wav'' emptyWorld)) =
     Inl DurationFormatNotFound"
    by code_simp
  have h3: "DurationFormatNotFound = DurationNotFound \<or> DurationFormatNotFound = DurationFormatNotFound"
    by simp
  show ?thesis
    using h1 h2 duration_failure_aborts_audio_conversion [OF h1 h2 h3, of "''ogg''"] by simp
qed

subsection \<open>A process that echoes\<close>

text \<open>
  C7, as the claim states it, fails: a process that echoes its standard input, exits cleanly
  and prints nothing on its standard error makes \<^verbatim>\<open>convertAudio\<close> return the duration
  error, not the payload.
\<close>

theorem echo_without_markers_returns_error:
  "exitError (audioOutcome (echoEnv '''') [1, 2, 3] ''wav'' emptyWorld) = None \<and>
   stdoutBytes (audioOutcome (echoEnv '''') [1, 2, 3] ''wav'' emptyWorld) = [1, 2, 3] \<and>
   fst (convertAudio (echoEnv '''') [1, 2, 3] ''ogg'' ''wav'' emptyWorld) = Inl DurationNotFound"
  by code_simp

text \<open>
  C7, amended. When the process exits cleanly, its standard output is the payload unchanged
  and the duration step succeeds on its diagnostic text, \<^verbatim>\<open>convertAudio\<close> returns exactly
  the payload (with that duration).
\<close>

theorem pipe_echo_round_trip:
  assumes "exitError (audioOutcome e inputData outputFormat w) = None"
    and "stdoutBytes (audioOutcome e inputData outputFormat w) = inputData"
    and "parseDuration (diagnosticText (audioOutcome e inputData outputFormat w)) = Inr duration"
  shows "fst (convertAudio e inputData inputFormat outputFormat w) = Inr (inputData, duration)"
  using assms by (simp add: convertAudio_result)

theorem pipe_echo_round_trip_witness:
  "exitError (audioOutcome (echoEnv ''time=00:00:01.00 time=00:01:02.50'') [7, 8] ''aac'' emptyWorld) = None \<and>
   stdoutBytes (audioOutcome (echoEnv ''time=00:00:01.00 time=00:01:02.50'') [7, 8] ''aac'' emptyWorld) = [7, 8] \<and>
   parseDuration (diagnosticText (audioOutcome (echoEnv ''time=00:00:01.00 time=00:01:02.50'') [7, 8] ''aac'' emptyWorld)) = Inr 62 \<and>
   fst (convertAudio (echoEnv ''time=00:00:01.00 time=00:01:02.50'') [7, 8] ''ogg'' ''aac'' emptyWorld) = Inr ([7, 8], 62)"
proof -
  have h1: "exitError (audioOutcome (echoEnv ''time=00:00:01.00 time=00:01:02.50'') [7, 8] ''aac'' emptyWorld) = None"
    by code_simp
  have h2: "stdoutBytes (audioOutcome (echoEnv ''time=00:00:01.00 time=00:01:02.50'') [7, 8] ''aac'' emptyWorld) = [7, 8]"
    by code_simp
  have h3: "parseDuration (diagnosticText (audioOutcome (echoEnv ''time=00:00:01.00 time=00:01:02.50'') [7, 8] ''aac'' emptyWorld)) = Inr 62"
    by code_simp
  show ?thesis
    using h1 h2 h3 pipe_echo_round_trip [OF h1 h2 h3, of "''ogg''"] by simp
qed

subsection \<open>How the process is fed\<close>

lemma CreateTemp_cases:
  "CreateTemp e pattern w = (None, w) \<or>
   (\<exists>path. CreateTemp e pattern w =
      (Some path, w\<lparr>files := (files w)(path \<mapsto> []), temps := temps w @ [path]\<rparr>))"
  by (simp add: CreateTemp_def split: option.split)

lemma Write_frame:
  "runs (snd (Write e path b w)) = runs w \<and> temps (snd (Write e path b w)) = temps w"
  by (simp add: Write_def Let_def)

lemma stagedRun_temps:
  "temps (snd (stagedRun e commandArgs inputPath outputPath w)) = temps w"
  by (simp add: stagedRun_def run_def Let_def split: option.split)

lemma stagedRun_runs:
  "newRuns w (snd (stagedRun e commandArgs inputPath outputPath w)) = [] \<or>
   newRuns w (snd (stagedRun e commandArgs inputPath outputPath w)) =
     [\<lparr>args = commandArgs inputPath outputPath, stdin = None\<rparr>]"
  by (simp add: stagedRun_def run_def Let_def newRuns_def split: option.split)

lemma withOutputFile_runs:
  "newRuns w (snd (withOutputFile e outputPattern commandArgs inputData inputPath w)) = [] \<or>
   (\<exists>outputPath. newRuns w (snd (withOutputFile e outputPattern commandArgs inputData inputPath w)) =
     [\<lparr>args = commandArgs inputPath outputPath, stdin = None\<rparr>])"
proof -
  obtain ok w1 where wr: "Write e inputPath inputData w = (ok, w1)"
    by (cases "Write e inputPath inputData w")
  have r1: "runs w1 = runs w" using Write_frame [of e inputPath inputData w] wr by simp
  show ?thesis
  proof (cases ok)
    case False
    then show ?thesis using wr r1 by (simp add: withOutputFile_def newRuns_def)
  next
    case True
    from CreateTemp_cases [of e outputPattern w1] show ?thesis
    proof
      assume "CreateTemp e outputPattern w1 = (None, w1)"
      then show ?thesis using wr r1 True by (simp add: withOutputFile_def newRuns_def)
    next
      assume "\<exists>path. CreateTemp e outputPattern w1 =
        (Some path, w1\<lparr>files := (files w1)(path \<mapsto> []), temps := temps w1 @ [path]\<rparr>)"
      then obtain path where ct: "CreateTemp e outputPattern w1 =
        (Some path, w1\<lparr>files := (files w1)(path \<mapsto> []), temps := temps w1 @ [path]\<rparr>)" ..
      define w2 where "w2 = w1\<lparr>files := (files w1)(path \<mapsto> []), temps := temps w1 @ [path]\<rparr>"
      have r2: "runs w2 = runs w" by (simp add: w2_def r1)
      have eq: "snd (withOutputFile e outputPattern commandArgs inputData inputPath w) =
                  Remove path (snd (stagedRun e commandArgs inputPath path w2))"
        using wr True ct by (simp add: withOutputFile_def w2_def split: prod.split)
      have "newRuns w (snd (withOutputFile e outputPattern commandArgs inputData inputPath w)) =
              newRuns w2 (snd (stagedRun e commandArgs inputPath path w2))"
        by (simp add: eq newRuns_def Remove_def r2)
      with stagedRun_runs [of w2 e commandArgs inputPath path] show ?thesis by auto
    qed
  qed
qed

lemma convertUsingTempFiles_runs:
  "newRuns w (snd (convertUsingTempFiles e inputPattern outputPattern commandArgs inputData w)) = [] \<or>
   (\<exists>inputPath outputPath.
      newRuns w (snd (convertUsingTempFiles e inputPattern outputPattern commandArgs inputData w)) =
        [\<lparr>args = commandArgs inputPath outputPath, stdin = None\<rparr>])"
proof -
  from CreateTemp_cases [of e inputPattern w] show ?thesis
  proof
    assume "CreateTemp e inputPattern w = (None, w)"
    then show ?thesis by (simp add: convertUsingTempFiles_def newRuns_def)
  next
    assume "\<exists>path. CreateTemp e inputPattern w =
      (Some path, w\<lparr>files := (files w)(path \<mapsto> []), temps := temps w @ [path]\<rparr>)"
    then obtain path where ct: "CreateTemp e inputPattern w =
      (Some path, w\<lparr>files := (files w)(path \<mapsto> []), temps := temps w @ [path]\<rparr>)" ..
    define w1 where "w1 = w\<lparr>files := (files w)(path \<mapsto> []), temps := temps w @ [path]\<rparr>"
    have r1: "runs w1 = runs w" by (simp add: w1_def)
    have eq: "snd (convertUsingTempFiles e inputPattern outputPattern commandArgs inputData w) =
                Remove path (snd (withOutputFile e outputPattern commandArgs inputData path w1))"
      using ct by (simp add: convertUsingTempFiles_def w1_def split: prod.split)
    have "newRuns w (snd (convertUsingTempFiles e inputPattern outputPattern commandArgs inputData w)) =
            newRuns w1 (snd (withOutputFile e outputPattern commandArgs inputData path w1))"
      by (simp add: eq newRuns_def Remove_def r1)
    with withOutputFile_runs [of w1 e outputPattern commandArgs inputData path] show ?thesis by auto
  qed
qed

lemma convertUsingTempFiles_modes:
  "c \<in> set (newRuns w (snd (convertUsingTempFiles e inputPattern outputPattern commandArgs inputData w)))
   \<Longrightarrow> ioModeOf c = TempFile"
  using convertUsingTempFiles_runs [of w e inputPattern outputPattern commandArgs inputData]
  by (auto simp: ioModeOf_def)

lemma convertUsingTempFiles_at_most_one:
  "length (newRuns w (snd (convertUsingTempFiles e inputPattern outputPattern commandArgs inputData w))) \<le> 1"
  using convertUsingTempFiles_runs [of w e inputPattern outputPattern commandArgs inputData]
  by auto

lemma convert_audio_runs:
  "newRuns w (snd (convert e (ProcessAudio inputFormat outputFormat) inputData w)) =
     [\<lparr>args = audioArgs outputFormat, stdin = Some inputData\<rparr>]"
proof -
  have "snd (convert e (ProcessAudio inputFormat outputFormat) inputData w) =
          snd (convertAudio e inputData inputFormat outputFormat w)"
    by (simp add: convert_def split: prod.split sum.split)
  then show ?thesis by (simp add: newRuns_def convertAudio_runs)
qed

lemma Remove_simps:
  "temps (Remove path w) = temps w"
  "files (Remove path w) path = None"
  "files w p = None \<Longrightarrow> files (Remove path w) p = None"
  by (simp_all add: Remove_def)

lemma withOutputFile_temps:
  "\<exists>created. temps (snd (withOutputFile e outputPattern commandArgs inputData inputPath w)) =
                temps w @ created \<and>
             length created \<le> 1 \<and>
             (\<forall>p \<in> set created.
                files (snd (withOutputFile e outputPattern commandArgs inputData inputPath w)) p = None)"
proof -
  obtain ok w1 where wr: "Write e inputPath inputData w = (ok, w1)"
    by (cases "Write e inputPath inputData w")
  have t1: "temps w1 = temps w" using Write_frame [of e inputPath inputData w] wr by simp
  show ?thesis
  proof (cases ok)
    case False
    then have "temps (snd (withOutputFile e outputPattern commandArgs inputData inputPath w)) =
                 temps w @ []"
      using wr t1 by (simp add: withOutputFile_def)
    then show ?thesis by (intro exI [of _ "[]"]) simp
  next
    case True
    from CreateTemp_cases [of e outputPattern w1] show ?thesis
    proof
      assume "CreateTemp e outputPattern w1 = (None, w1)"
      then have "temps (snd (withOutputFile e outputPattern commandArgs inputData inputPath w)) =
                   temps w @ []"
        using wr t1 True by (simp add: withOutputFile_def)
      then show ?thesis by (intro exI [of _ "[]"]) simp
    next
      assume "\<exists>path. CreateTemp e outputPattern w1 =
        (Some path, w1\<lparr>files := (files w1)(path \<mapsto> []), temps := temps w1 @ [path]\<rparr>)"
      then obtain path where ct: "CreateTemp e outputPattern w1 =
        (Some path, w1\<lparr>files := (files w1)(path \<mapsto> []), temps := temps w1 @ [path]\<rparr>)" ..
      define w2 where "w2 = w1\<lparr>files := (files w1)(path \<mapsto> []), temps := temps w1 @ [path]\<rparr>"
      have t2: "temps w2 = temps w @ [path]" by (simp add: w2_def t1)
      have eq: "snd (withOutputFile e outputPattern commandArgs inputData inputPath w) =
                  Remove path (snd (stagedRun e commandArgs inputPath path w2))"
        using wr True ct by (simp add: withOutputFile_def w2_def split: prod.split)
      have "temps (snd (withOutputFile e outputPattern commandArgs inputData inputPath w)) =
              temps w @ [path]"
        by (simp add: eq Remove_simps stagedRun_temps t2)
      moreover have "files (snd (withOutputFile e outputPattern commandArgs inputData inputPath w)) path = None"
        by (simp add: eq Remove_simps)
      ultimately show ?thesis by (intro exI [of _ "[path]"]) simp
    qed
  qed
qed

lemma convertUsingTempFiles_temps:
  "\<exists>created. temps (snd (convertUsingTempFiles e inputPattern outputPattern commandArgs inputData w)) =
                temps w @ created \<and>
             length created \<le> 2 \<and>
             (\<forall>p \<in> set created.
                files (snd (convertUsingTempFiles e inputPattern outputPattern commandArgs inputData w)) p = None)"
proof -
  from CreateTemp_cases [of e inputPattern w] show ?thesis
  proof
    assume "CreateTemp e inputPattern w = (None, w)"
    then have "temps (snd (convertUsingTempFiles e inputPattern outputPattern commandArgs inputData w)) =
                 temps w @ []"
      by (simp add: convertUsingTempFiles_def)
    then show ?thesis by (intro exI [of _ "[]"]) simp
  next
    assume "\<exists>path. CreateTemp e inputPattern w =
      (Some path, w\<lparr>files := (files w)(path \<mapsto> []), temps := temps w @ [path]\<rparr>)"
    then obtain path where ct: "CreateTemp e inputPattern w =
      (Some path, w\<lparr>files := (files w)(path \<mapsto> []), temps := temps w @ [path]\<rparr>)" ..
    define w1 where "w1 = w\<lparr>files := (files w)(path \<mapsto> []), temps := temps w @ [path]\<rparr>"
    define w2 where "w2 = snd (withOutputFile e outputPattern commandArgs inputData path w1)"
    have t1: "temps w1 = temps w @ [path]" by (simp add: w1_def)
    have eq: "snd (convertUsingTempFiles e inputPattern outputPattern commandArgs inputData w) =
                Remove path w2"
      using ct by (simp add: convertUsingTempFiles_def w1_def w2_def split: prod.split)
    obtain created where c: "temps w2 = temps w1 @ created" "length created \<le> 1"
        "\<forall>p \<in> set created. files w2 p = None"
      using withOutputFile_temps [of e outputPattern commandArgs inputData path w1]
      unfolding w2_def by blast
    have "temps (Remove path w2) = temps w @ (path # created)"
      by (simp add: Remove_simps c(1) t1)
    moreover have "length (path # created) \<le> 2" using c(2) by simp
    moreover have "\<forall>p \<in> set (path # created). files (Remove path w2) p = None"
      using c(3) by (auto simp: Remove_simps)
    ultimately show ?thesis unfolding eq by blast
  qed
qed

lemma convertUsingTempFiles_newTemps:
  "(\<forall>p \<in> set (newTemps w (snd (convertUsingTempFiles e inputPattern outputPattern commandArgs inputData w))).
      files (snd (convertUsingTempFiles e inputPattern outputPattern commandArgs inputData w)) p = None) \<and>
   length (newTemps w (snd (convertUsingTempFiles e inputPattern outputPattern commandArgs inputData w))) \<le> 2"
  using convertUsingTempFiles_temps [of e inputPattern outputPattern commandArgs inputData w]
  by (auto simp: newTemps_def)

lemma convertAudio_temps:
  "temps (snd (convertAudio e inputData inputFormat outputFormat w)) = temps w"
  by (simp add: convertAudio_def run_def Let_def split: option.split sum.split)

text \<open>
  C1, as the claim states it, fails: the conversion of an image to PNG, which is not in the
  seek-requiring set, runs its process on two temporary files and not through pipes.
\<close>

theorem image_target_uses_temp_files:
  "map ioModeOf (newRuns emptyWorld (snd (convert (echoEnv '''') ImageToPng [1] emptyWorld))) =
     [TempFile] \<and>
   newTemps emptyWorld (snd (convert (echoEnv '''') ImageToPng [1] emptyWorld)) =
     [''/tmp/input-0042'', ''/tmp/output-0042.png''] \<and>
   \<not> spec_seekRequiring ImageToPng"
  by code_simp

text \<open>
  C1, amended. Every process a route runs is fed through temporary files exactly when the
  route is one of GIF to MP4, video to MP4 and image to PNG, and through pipes when it is the
  audio route; a route runs at most one process.
\<close>

theorem io_mode_by_route:
  "(\<forall>c \<in> set (newRuns w (snd (convert e r inputData w))).
      ioModeOf c =
        (case r of
           ProcessAudio inputFormat outputFormat \<Rightarrow> Pipe
         | GifToMp4 \<Rightarrow> TempFile
         | VideoToMp4 inputFormat \<Rightarrow> TempFile
         | ImageToPng \<Rightarrow> TempFile)) \<and>
   length (newRuns w (snd (convert e r inputData w))) \<le> 1"
proof (cases r)
  case (ProcessAudio inputFormat outputFormat)
  then show ?thesis by (simp add: convert_audio_runs ioModeOf_def)
next
  case GifToMp4
  show ?thesis
  proof (cases "length inputData = 0")
    case True
    then show ?thesis using GifToMp4 by (simp add: convert_def convertGifToMp4_def newRuns_def)
  next
    case False
    then have "convert e r inputData w =
                 convertUsingTempFiles e ''input-*.gif'' ''output-*.mp4'' gifArgs inputData w"
      using GifToMp4 by (simp add: convert_def convertGifToMp4_def convertGifToMp4UsingTempFiles_def)
    then show ?thesis
      using GifToMp4 convertUsingTempFiles_modes convertUsingTempFiles_at_most_one
      by (simp del: One_nat_def)
  qed
next
  case (VideoToMp4 inputFormat)
  then have "convert e r inputData w =
               convertUsingTempFiles e (''input-*.'' @ inputFormat) ''output-*.mp4'' videoArgs inputData w"
    by (simp add: convert_def convertVideoToMp4_def convertVideoToMp4UsingTempFiles_def)
  then show ?thesis
    using VideoToMp4 convertUsingTempFiles_modes convertUsingTempFiles_at_most_one
    by (simp del: One_nat_def)
next
  case ImageToPng
  then have "convert e r inputData w =
               convertUsingTempFiles e ''input-*'' ''output-*.png'' pngArgs inputData w"
    by (simp add: convert_def convertImageToPng_def convertImageToPngUsingTempFiles_def)
  then show ?thesis
    using ImageToPng convertUsingTempFiles_modes convertUsingTempFiles_at_most_one
    by (simp del: One_nat_def)
qed

theorem io_mode_by_route_witness:
  "map ioModeOf (newRuns emptyWorld (snd (convert (echoEnv '''') GifToMp4 [1] emptyWorld))) =
     [TempFile] \<and>
   map ioModeOf
     (newRuns emptyWorld
        (snd (convert (echoEnv '''') (ProcessAudio ''ogg'' ''m4a'') [1] emptyWorld))) =
     [Pipe]"
proof -
  have g: "newRuns emptyWorld (snd (convert (echoEnv '''') GifToMp4 [1] emptyWorld)) =
             [\<lparr>args = gifArgs ''/tmp/input-0042.gif'' ''/tmp/output-0042.mp4'', stdin = None\<rparr>]"
    by code_simp
  have a: "newRuns emptyWorld
             (snd (convert (echoEnv '''') (ProcessAudio ''ogg'' ''m4a'') [1] emptyWorld)) =
             [\<lparr>args = audioArgs ''m4a'', stdin = Some [1]\<rparr>]"
    by code_simp
  show ?thesis
    using io_mode_by_route [of emptyWorld "echoEnv ''''" GifToMp4 "[1]"]
      io_mode_by_route [of emptyWorld "echoEnv ''''" "ProcessAudio ''ogg'' ''m4a''" "[1]"]
    by (simp add: g a)
qed

subsection \<open>The temporary files are removed\<close>

text \<open>
  C8. Whatever the environment does (no name for a temporary file, a short write, a failing
  process, a process that removes or empties files), every temporary path that a conversion
  has created is absent from the file system when the conversion returns, with a result or
  with an error; a conversion creates at most two.
\<close>

theorem temp_files_removed_on_every_exit_path:
  "(\<forall>p \<in> set (newTemps w (snd (convert e r inputData w))).
      files (snd (convert e r inputData w)) p = None) \<and>
   length (newTemps w (snd (convert e r inputData w))) \<le> 2"
proof (cases r)
  case (ProcessAudio inputFormat outputFormat)
  have "snd (convert e (ProcessAudio inputFormat outputFormat) inputData w) =
          snd (convertAudio e inputData inputFormat outputFormat w)"
    by (simp add: convert_def split: prod.split sum.split)
  then show ?thesis using ProcessAudio by (simp add: newTemps_def convertAudio_temps)
next
  case GifToMp4
  show ?thesis
  proof (cases "length inputData = 0")
    case True
    then show ?thesis using GifToMp4 by (simp add: convert_def convertGifToMp4_def newTemps_def)
  next
    case False
    then have eq: "convert e r inputData w =
                 convertUsingTempFiles e ''input-*.gif'' ''output-*.mp4'' gifArgs inputData w"
      using GifToMp4 by (simp add: convert_def convertGifToMp4_def convertGifToMp4UsingTempFiles_def)
    show ?thesis unfolding eq by (rule convertUsingTempFiles_newTemps)
  qed
next
  case (VideoToMp4 inputFormat)
  then have eq: "convert e r inputData w =
               convertUsingTempFiles e (''input-*.'' @ inputFormat) ''output-*.mp4'' videoArgs inputData w"
    by (simp add: convert_def convertVideoToMp4_def convertVideoToMp4UsingTempFiles_def)
  show ?thesis unfolding eq by (rule convertUsingTempFiles_newTemps)
next
  case ImageToPng
  then have eq: "convert e r inputData w =
               convertUsingTempFiles e ''input-*'' ''output-*.png'' pngArgs inputData w"
    by (simp add: convert_def convertImageToPng_def convertImageToPngUsingTempFiles_def)
  show ?thesis unfolding eq by (rule convertUsingTempFiles_newTemps)
qed

theorem temp_files_removed_on_every_exit_path_witness:
  "fst (convert (echoEnv '''') (VideoToMp4 ''avi'') [5, 6] emptyWorld) = Inr [5, 6] \<and>
   newTemps emptyWorld (snd (convert (echoEnv '''') (VideoToMp4 ''avi'') [5, 6] emptyWorld)) =
     [''/tmp/input-0042.avi'', ''/tmp/output-0042.mp4''] \<and>
   files (snd (convert (echoEnv '''') (VideoToMp4 ''avi'') [5, 6] emptyWorld))
     ''/tmp/input-0042.avi'' = None \<and>
   files (snd (convert (echoEnv '''') (VideoToMp4 ''avi'') [5, 6] emptyWorld))
     ''/tmp/output-0042.mp4'' = None \<and>
   fst (convert (echoEnv '''') ImageToPng [] emptyWorld) = Inl EmptyOutput \<and>
   newTemps emptyWorld (snd (convert (echoEnv '''') ImageToPng [] emptyWorld)) =
     [''/tmp/input-0042'', ''/tmp/output-0042.png''] \<and>
   files (snd (convert (echoEnv '''') ImageToPng [] emptyWorld)) ''/tmp/input-0042'' = None \<and>
   files (snd (convert (echoEnv '''') ImageToPng [] emptyWorld)) ''/tmp/output-0042.png'' = None"
proof -
  have r: "fst (convert (echoEnv '''') (VideoToMp4 ''avi'') [5, 6] emptyWorld) = Inr [5, 6]"
    by code_simp
  have t: "newTemps emptyWorld
             (snd (convert (echoEnv '''') (VideoToMp4 ''avi'') [5, 6] emptyWorld)) =
             [''/tmp/input-0042.avi'', ''/tmp/output-0042.mp4'']"
    by code_simp
  have r': "fst (convert (echoEnv '''') ImageToPng [] emptyWorld) = Inl EmptyOutput"
    by code_simp
  have t': "newTemps emptyWorld (snd (convert (echoEnv '''') ImageToPng [] emptyWorld)) =
              [''/tmp/input-0042'', ''/tmp/output-0042.png'']"
    by code_simp
  show ?thesis
    using temp_files_removed_on_every_exit_path
            [of emptyWorld "echoEnv ''''" "VideoToMp4 ''avi''" "[5, 6]"]
          temp_files_removed_on_every_exit_path [of emptyWorld "echoEnv ''''" ImageToPng "[]"]
    by (simp add: r t r' t')
qed

subsection \<open>Empty output and temporary files, route by route\<close>

text \<open>
  The three conversions through temporary files never return an empty byte sequence as a
  result, and the audio conversion never creates a temporary file.
\<close>

lemma stagedRun_nonempty:
  "fst (stagedRun e commandArgs inputPath outputPath w) \<noteq> Inr []"
  by (auto simp: stagedRun_def run_def Let_def split: if_splits option.splits)

lemma withOutputFile_nonempty:
  "fst (withOutputFile e outputPattern commandArgs inputData inputPath w) \<noteq> Inr []"
proof -
  obtain ok w1 where wr: "Write e inputPath inputData w = (ok, w1)"
    by (cases "Write e inputPath inputData w")
  obtain created w2 where ct: "CreateTemp e outputPattern w1 = (created, w2)"
    by (cases "CreateTemp e outputPattern w1")
  show ?thesis
  proof (cases "ok \<and> created \<noteq> None")
    case False
    then show ?thesis using wr ct by (auto simp: withOutputFile_def)
  next
    case True
    then obtain outputPath where "created = Some outputPath" by auto
    then have "fst (withOutputFile e outputPattern commandArgs inputData inputPath w) =
                 fst (stagedRun e commandArgs inputPath outputPath w2)"
      using wr ct True by (simp add: withOutputFile_def split: prod.split)
    then show ?thesis by (simp add: stagedRun_nonempty)
  qed
qed

lemma convertUsingTempFiles_nonempty:
  "fst (convertUsingTempFiles e inputPattern outputPattern commandArgs inputData w) \<noteq> Inr []"
proof -
  obtain created w1 where ct: "CreateTemp e inputPattern w = (created, w1)"
    by (cases "CreateTemp e inputPattern w")
  show ?thesis
  proof (cases created)
    case None
    then show ?thesis using ct by (simp add: convertUsingTempFiles_def)
  next
    case (Some inputPath)
    then have "fst (convertUsingTempFiles e inputPattern outputPattern commandArgs inputData w) =
                 fst (withOutputFile e outputPattern commandArgs inputData inputPath w1)"
      using ct by (simp add: convertUsingTempFiles_def split: prod.split)
    then show ?thesis by (simp add: withOutputFile_nonempty)
  qed
qed

lemma temp_file_routes_nonempty:
  assumes "r = GifToMp4 \<or> r = VideoToMp4 inputFormat \<or> r = ImageToPng"
  shows "fst (convert e r inputData w) \<noteq> Inr []"
  using assms
  by (auto simp: convert_def convertGifToMp4_def convertGifToMp4UsingTempFiles_def
      convertVideoToMp4_def convertVideoToMp4UsingTempFiles_def
      convertImageToPng_def convertImageToPngUsingTempFiles_def convertUsingTempFiles_nonempty
      split: if_splits)

lemma audio_route_creates_no_temp_files:
  "newTemps w (snd (convert e (ProcessAudio inputFormat outputFormat) inputData w)) = []"
proof -
  have "snd (convert e (ProcessAudio inputFormat outputFormat) inputData w) =
          snd (convertAudio e inputData inputFormat outputFormat w)"
    by (simp add: convert_def split: prod.split sum.split)
  then show ?thesis by (simp add: newTemps_def convertAudio_temps)
qed

end
